theory Spec2Isabelle
  imports Main "HOL-Library.AList"
begin

section \<open>Python values, exceptions and the instance state\<close>

text \<open>
  The values the views handle. A dict with string keys is an association list in
  insertion order. \<open>PObj\<close> is a reference to an object owned by an external library
  (a record, a form, a session, a model class); \<open>PSelf\<close> is the view instance;
  \<open>PRedirect\<close> is the response object made by \<open>flask.redirect\<close>.
\<close>

datatype pyval =
    PNone
  | PBool bool
  | PInt int
  | PStr string
  | PList "pyval list"
  | PDict "(string \<times> pyval) list"
  | PObj nat
  | PSelf
  | PRedirect pyval

type_synonym dict = "(string \<times> pyval) list"

text \<open>Python's truth value, as tested by \<open>if x:\<close> and by \<open>x or y\<close>.\<close>

fun truthy :: "pyval \<Rightarrow> bool" where
  "truthy PNone = False"
| "truthy (PBool b) = b"
| "truthy (PInt i) = (i \<noteq> 0)"
| "truthy (PStr s) = (s \<noteq> [])"
| "truthy (PList xs) = (xs \<noteq> [])"
| "truthy (PDict d) = (d \<noteq> [])"
| "truthy (PObj n) = True"
| "truthy PSelf = True"
| "truthy (PRedirect l) = True"

datatype exn =
    ImproperlyConfigured string
  | AttributeError string
  | KeyError string
  | NotFound
  | NotHandled
  | Raised pyval

text \<open>
  The calls a view makes into the framework and the form library, in the order they are
  made: \<open>flash(message, category)\<close>, \<open>redirect(location)\<close>,
  \<open>render_template(name, **context)\<close>, \<open>form.save_obj(session)\<close> and
  \<open>form.delete_obj(session)\<close>.
\<close>

datatype event =
    Flashed pyval pyval
  | Redirected pyval
  | Rendered pyval dict
  | SavedObj pyval pyval
  | DeletedObj pyval pyval

text \<open>
  The attributes a view instance gets during a request (\<open>None\<close> while the attribute
  is not set: reading it then raises AttributeError), and the trace of calls.
\<close>

record world =
  vargs :: "pyval list option"
  vkwargs :: "dict option"
  vform :: "pyval option"
  vobject :: "pyval option"
  trace :: "event list"

type_synonym 'a rd = "world \<Rightarrow> exn + 'a"
type_synonym 'a act = "world \<Rightarrow> exn + ('a \<times> world)"

definition ret :: "'a \<Rightarrow> 'a act" where
  "ret a = (\<lambda>w. Inr (a, w))"

definition seq :: "'a act \<Rightarrow> ('a \<Rightarrow> 'b act) \<Rightarrow> 'b act" where
  "seq m f = (\<lambda>w. case m w of Inl e \<Rightarrow> Inl e | Inr (a, w') \<Rightarrow> f a w')"

definition rd :: "'a rd \<Rightarrow> 'a act" where
  "rd r = (\<lambda>w. case r w of Inl e \<Rightarrow> Inl e | Inr a \<Rightarrow> Inr (a, w))"

definition upd :: "(world \<Rightarrow> world) \<Rightarrow> unit act" where
  "upd f = (\<lambda>w. Inr ((), f w))"

definition emit :: "event \<Rightarrow> unit act" where
  "emit ev = upd (\<lambda>w. w\<lparr>trace := trace w @ [ev]\<rparr>)"

definition attr :: "string \<Rightarrow> (world \<Rightarrow> 'a option) \<Rightarrow> 'a rd" where
  "attr name field = (\<lambda>w. case field w of None \<Rightarrow> Inl (AttributeError name) | Some v \<Rightarrow> Inr v)"

text \<open>\<open>d[k] = v\<close> is \<open>AList.update k v d\<close>; \<open>d.update(e)\<close> stores the pairs of \<open>e\<close> in order.\<close>

definition dict_update :: "dict \<Rightarrow> dict \<Rightarrow> dict" where
  "dict_update d e = foldl (\<lambda>a (k, v). AList.update k v a) d e"

section \<open>The external libraries\<close>

text \<open>
  What the framework, the template engine, the form library and the record library
  compute is not part of this repository: it is a parameter. Each of them may raise.
  \<open>MethodView_dispatch_request\<close> is the verb dispatch of \<open>flask.views.MethodView\<close>.
\<close>

record ext =
  jinja_render :: "pyval \<Rightarrow> dict \<Rightarrow> string rd"
  form_class_call :: "pyval \<Rightarrow> dict \<Rightarrow> pyval rd"
  validate_on_submit :: "pyval \<Rightarrow> bool rd"
  form_obj :: "pyval \<Rightarrow> pyval rd"
  query_session :: "pyval \<Rightarrow> pyval rd"
  query_all :: "pyval \<Rightarrow> pyval rd"
  save_obj :: "pyval \<Rightarrow> pyval \<Rightarrow> unit rd"
  delete_obj :: "pyval \<Rightarrow> pyval \<Rightarrow> unit rd"
  MethodView_dispatch_request :: "pyval list \<Rightarrow> dict \<Rightarrow> pyval act"

text \<open>\<open>flask.flash\<close>, \<open>flask.redirect\<close> and \<open>flask.render_template\<close>.\<close>

definition flash :: "pyval \<Rightarrow> pyval \<Rightarrow> unit act" where
  "flash message category = emit (Flashed message category)"

definition redirect :: "pyval \<Rightarrow> pyval act" where
  "redirect location = seq (emit (Redirected location)) (\<lambda>_. ret (PRedirect location))"

definition render_template :: "ext \<Rightarrow> pyval \<Rightarrow> dict \<Rightarrow> pyval act" where
  "render_template x name context =
     seq (rd (jinja_render x name context)) (\<lambda>text.
     seq (emit (Rendered name context)) (\<lambda>_.
     ret (PStr text)))"

section \<open>The view classes\<close>

text \<open>
  The classes of \<open>app/views/__init__.py\<close>. A view class is one of them (\<open>kind\<close>;
  a subclass has the kind of the class it extends), the name of the class itself
  (\<open>self.__class__.__name__\<close>), the class attributes, and the methods a subclass
  overrides (\<open>None\<close>: not overridden). An overriding getter reads the instance; the
  resolvers that the base classes let raise may raise; the hooks \<open>dispatch\<close>,
  \<open>form_valid\<close> and \<open>form_invalid\<close> may do anything to the instance.
\<close>

datatype kind =
    TemplateView | RedirectView | ListView | DetailView
  | FormView | CreateView | UpdateView | DeleteView

record vclass =
  kind :: kind
  cname :: string
  success_message :: pyval
  template_name :: pyval
  url :: pyval
  model :: pyval
  context_object_list_name :: string
  context_object_name :: string
  context_form_name :: string
  form_class :: pyval
  success_url :: pyval
  o_dispatch :: "pyval act option"
  o_get_success_message :: "(world \<Rightarrow> pyval) option"
  o_get_template_names :: "pyval rd option"
  o_get_context :: "(world \<Rightarrow> dict) option"
  o_get_url :: "pyval rd option"
  o_get_context_object_list_name :: "(world \<Rightarrow> string) option"
  o_get_object_list :: "pyval rd option"
  o_get_context_object_name :: "(world \<Rightarrow> string) option"
  o_get_object :: "pyval rd option"
  o_get_success_url :: "pyval rd option"
  o_get_context_form_name :: "(world \<Rightarrow> string) option"
  o_get_form :: "pyval rd option"
  o_form_valid :: "pyval act option"
  o_form_invalid :: "pyval act option"
  o_get_db_session :: "pyval rd option"

text \<open>A class that sets no attribute and overrides nothing: the defaults of the source.\<close>

definition plain :: "kind \<Rightarrow> string \<Rightarrow> vclass" where
  "plain k n = \<lparr>kind = k, cname = n, success_message = PNone, template_name = PNone,
     url = PNone, model = PNone, context_object_list_name = ''object_list'',
     context_object_name = ''object'', context_form_name = ''form'', form_class = PNone,
     success_url = PNone, o_dispatch = None, o_get_success_message = None,
     o_get_template_names = None, o_get_context = None, o_get_url = None,
     o_get_context_object_list_name = None, o_get_object_list = None,
     o_get_context_object_name = None, o_get_object = None, o_get_success_url = None,
     o_get_context_form_name = None, o_get_form = None, o_form_valid = None,
     o_form_invalid = None, o_get_db_session = None\<rparr>"

text \<open>
  CreateView, UpdateView and DeleteView extend \<open>(FormView, DetailView)\<close>: in their
  method resolution order DetailView comes after FormView and before TemplateView, so
  \<open>super()\<close> in FormView is DetailView for them and TemplateView for FormView itself.
\<close>

fun detail_in_mro :: "kind \<Rightarrow> bool" where
  "detail_in_mro DetailView = True"
| "detail_in_mro CreateView = True"
| "detail_in_mro UpdateView = True"
| "detail_in_mro DeleteView = True"
| "detail_in_mro _ = False"

definition rseq :: "'a rd \<Rightarrow> ('a \<Rightarrow> 'b rd) \<Rightarrow> 'b rd" where
  "rseq m f = (\<lambda>w. case m w of Inl e \<Rightarrow> Inl e | Inr a \<Rightarrow> f a w)"

subsection \<open>FlashMessageMixin\<close>

definition get_success_message :: "vclass \<Rightarrow> world \<Rightarrow> pyval" where
  "get_success_message c w =
     (case o_get_success_message c of Some f \<Rightarrow> f w | None \<Rightarrow> success_message c)"

definition flash_message :: "pyval \<Rightarrow> pyval \<Rightarrow> unit act" where
  "flash_message category message = (if truthy message then flash message category else ret ())"

definition flash_success_message :: "vclass \<Rightarrow> unit act" where
  "flash_success_message c = (\<lambda>w. flash_message (PStr ''success'') (get_success_message c w) w)"

subsection \<open>View\<close>

definition dispatch :: "vclass \<Rightarrow> pyval act" where
  "dispatch c = (case o_dispatch c of Some h \<Rightarrow> h | None \<Rightarrow> ret PNone)"

definition dispatch_request :: "ext \<Rightarrow> vclass \<Rightarrow> pyval list \<Rightarrow> dict \<Rightarrow> pyval act" where
  "dispatch_request x c args kwargs =
     seq (upd (\<lambda>w. w\<lparr>vargs := Some args\<rparr>)) (\<lambda>_.
     seq (upd (\<lambda>w. w\<lparr>vkwargs := Some kwargs\<rparr>)) (\<lambda>_.
     seq (dispatch c) (\<lambda>r.
     if truthy r then ret r else MethodView_dispatch_request x args kwargs)))"

subsection \<open>TemplateView\<close>

definition get_template_names :: "vclass \<Rightarrow> pyval rd" where
  "get_template_names c =
     (case o_get_template_names c of
        Some f \<Rightarrow> f
      | None \<Rightarrow> (\<lambda>w.
          if template_name c = PNone then
            Inl (ImproperlyConfigured
                   (cname c @ '' must define either `template_name` or `get_template_names()`''))
          else Inr (template_name c)))"

definition get_context :: "vclass \<Rightarrow> world \<Rightarrow> dict" where
  "get_context c w = (case o_get_context c of Some f \<Rightarrow> f w | None \<Rightarrow> [])"

definition TemplateView_get_default_context :: "vclass \<Rightarrow> dict rd" where
  "TemplateView_get_default_context c =
     rseq (attr ''kwargs'' vkwargs) (\<lambda>kw w.
     Inr (dict_update [(''view'', PSelf), (''kwargs'', PDict kw)] (get_context c w)))"

subsection \<open>RedirectView\<close>

definition get_url :: "vclass \<Rightarrow> pyval rd" where
  "get_url c =
     (case o_get_url c of
        Some f \<Rightarrow> f
      | None \<Rightarrow> (\<lambda>w.
          if url c = PNone then
            Inl (ImproperlyConfigured (cname c @ '' must define either `url` or `get_url()`''))
          else Inr (url c)))"

definition RedirectView_get :: "vclass \<Rightarrow> pyval list \<Rightarrow> dict \<Rightarrow> pyval act" where
  "RedirectView_get c args kwargs =
     seq (flash_success_message c) (\<lambda>_.
     seq (rd (get_url c)) redirect)"

subsection \<open>ListView\<close>

definition get_context_object_list_name :: "vclass \<Rightarrow> world \<Rightarrow> string" where
  "get_context_object_list_name c w =
     (case o_get_context_object_list_name c of
        Some f \<Rightarrow> f w | None \<Rightarrow> context_object_list_name c)"

definition get_object_list :: "ext \<Rightarrow> vclass \<Rightarrow> pyval rd" where
  "get_object_list x c =
     (case o_get_object_list c of
        Some f \<Rightarrow> f
      | None \<Rightarrow> (\<lambda>w.
          if model c = PNone then
            Inl (ImproperlyConfigured
                   (cname c @ '' must define either `model` or `get_object_list()`''))
          else query_all x (model c) w))"

text \<open>In \<open>context[name()] = value()\<close> Python evaluates the right-hand side first.\<close>

definition ListView_get_default_context :: "ext \<Rightarrow> vclass \<Rightarrow> dict rd" where
  "ListView_get_default_context x c =
     rseq (TemplateView_get_default_context c) (\<lambda>context.
     rseq (get_object_list x c) (\<lambda>object_list w.
     Inr (AList.update (get_context_object_list_name c w) object_list context)))"

subsection \<open>DetailView\<close>

definition get_context_object_name :: "vclass \<Rightarrow> world \<Rightarrow> string" where
  "get_context_object_name c w =
     (case o_get_context_object_name c of Some f \<Rightarrow> f w | None \<Rightarrow> context_object_name c)"

definition get_object :: "vclass \<Rightarrow> pyval rd" where
  "get_object c =
     (case o_get_object c of
        Some f \<Rightarrow> f
      | None \<Rightarrow> (\<lambda>w. Inl (ImproperlyConfigured (cname c @ '' must define `get_object()`''))))"

definition DetailView_get_default_context :: "vclass \<Rightarrow> dict rd" where
  "DetailView_get_default_context c =
     rseq (TemplateView_get_default_context c) (\<lambda>context.
     rseq (get_object c) (\<lambda>obj w.
     Inr (AList.update (get_context_object_name c w) obj context)))"

subsection \<open>FormView\<close>

definition get_success_url :: "vclass \<Rightarrow> pyval rd" where
  "get_success_url c =
     (case o_get_success_url c of
        Some f \<Rightarrow> f
      | None \<Rightarrow> (\<lambda>w.
          if success_url c = PNone then
            Inl (ImproperlyConfigured
                   (cname c @ '' must define either `success_url` or `get_success_url()`''))
          else Inr (success_url c)))"

definition get_context_form_name :: "vclass \<Rightarrow> world \<Rightarrow> string" where
  "get_context_form_name c w =
     (case o_get_context_form_name c of Some f \<Rightarrow> f w | None \<Rightarrow> context_form_name c)"

definition FormView_get_default_context :: "vclass \<Rightarrow> dict rd" where
  "FormView_get_default_context c =
     rseq (if detail_in_mro (kind c) then DetailView_get_default_context c
           else TemplateView_get_default_context c) (\<lambda>context.
     rseq (attr ''form'' vform) (\<lambda>f w.
     Inr (AList.update (get_context_form_name c w) f context)))"

text \<open>The \<open>get_default_context\<close> that \<open>self.get_default_context()\<close> resolves to.\<close>

definition get_default_context :: "ext \<Rightarrow> vclass \<Rightarrow> dict rd" where
  "get_default_context x c =
     (case kind c of
        TemplateView \<Rightarrow> TemplateView_get_default_context c
      | RedirectView \<Rightarrow> (\<lambda>w. Inl (AttributeError ''get_default_context''))
      | ListView \<Rightarrow> ListView_get_default_context x c
      | DetailView \<Rightarrow> DetailView_get_default_context c
      | _ \<Rightarrow> FormView_get_default_context c)"

text \<open>
  \<open>get_form\<close>: FormView calls \<open>form_class()\<close>; CreateView, UpdateView and DeleteView
  call \<open>form_class(obj=self.get_object())\<close>.
\<close>

definition get_form :: "ext \<Rightarrow> vclass \<Rightarrow> pyval rd" where
  "get_form x c =
     (case o_get_form c of
        Some f \<Rightarrow> f
      | None \<Rightarrow>
          if detail_in_mro (kind c) then
            rseq (get_object c) (\<lambda>obj. form_class_call x (form_class c) [(''obj'', obj)])
          else form_class_call x (form_class c) [])"

definition form_valid :: "vclass \<Rightarrow> pyval act" where
  "form_valid c = (case o_form_valid c of Some h \<Rightarrow> h | None \<Rightarrow> ret PNone)"

definition form_invalid :: "vclass \<Rightarrow> pyval act" where
  "form_invalid c = (case o_form_invalid c of Some h \<Rightarrow> h | None \<Rightarrow> ret PNone)"

definition FormView_form_valid_process :: "vclass \<Rightarrow> pyval act" where
  "FormView_form_valid_process c = seq (rd (get_success_url c)) redirect"

subsection \<open>The get methods\<close>

definition TemplateView_get :: "ext \<Rightarrow> vclass \<Rightarrow> pyval list \<Rightarrow> dict \<Rightarrow> pyval act" where
  "TemplateView_get x c args kwargs =
     seq (rd (get_template_names c)) (\<lambda>name.
     seq (rd (get_default_context x c)) (\<lambda>context.
     render_template x name context))"

definition DetailView_get :: "ext \<Rightarrow> vclass \<Rightarrow> pyval list \<Rightarrow> dict \<Rightarrow> pyval act" where
  "DetailView_get x c args kwargs =
     seq (rd (get_object c)) (\<lambda>obj.
     seq (upd (\<lambda>w. w\<lparr>vobject := Some obj\<rparr>)) (\<lambda>_.
     TemplateView_get x c args kwargs))"

definition FormView_super_get :: "ext \<Rightarrow> vclass \<Rightarrow> pyval list \<Rightarrow> dict \<Rightarrow> pyval act" where
  "FormView_super_get x c args kwargs =
     (if detail_in_mro (kind c) then DetailView_get x c args kwargs
      else TemplateView_get x c args kwargs)"

definition FormView_get :: "ext \<Rightarrow> vclass \<Rightarrow> pyval list \<Rightarrow> dict \<Rightarrow> pyval act" where
  "FormView_get x c args kwargs =
     seq (rd (get_form x c)) (\<lambda>f.
     seq (upd (\<lambda>w. w\<lparr>vform := Some f\<rparr>)) (\<lambda>_.
     FormView_super_get x c args kwargs))"

definition get :: "ext \<Rightarrow> vclass \<Rightarrow> pyval list \<Rightarrow> dict \<Rightarrow> pyval act" where
  "get x c args kwargs =
     (case kind c of
        TemplateView \<Rightarrow> TemplateView_get x c args kwargs
      | RedirectView \<Rightarrow> RedirectView_get c args kwargs
      | ListView \<Rightarrow> TemplateView_get x c args kwargs
      | DetailView \<Rightarrow> DetailView_get x c args kwargs
      | _ \<Rightarrow> FormView_get x c args kwargs)"

subsection \<open>CreateView, UpdateView, DeleteView\<close>

definition get_db_session :: "ext \<Rightarrow> vclass \<Rightarrow> pyval rd" where
  "get_db_session x c =
     (case o_get_db_session c of
        Some f \<Rightarrow> f
      | None \<Rightarrow> rseq (attr ''form'' vform) (\<lambda>f. rseq (form_obj x f) (query_session x)))"

definition CreateView_form_valid_process :: "ext \<Rightarrow> vclass \<Rightarrow> pyval act" where
  "CreateView_form_valid_process x c =
     seq (rd (attr ''form'' vform)) (\<lambda>f.
     seq (rd (get_db_session x c)) (\<lambda>session.
     seq (rd (save_obj x f session)) (\<lambda>_.
     seq (emit (SavedObj f session)) (\<lambda>_.
     seq (rd (rseq (attr ''form'' vform) (form_obj x))) (\<lambda>obj.
     seq (upd (\<lambda>w. w\<lparr>vobject := Some obj\<rparr>)) (\<lambda>_.
     FormView_form_valid_process c))))))"

definition DeleteView_form_valid_process :: "ext \<Rightarrow> vclass \<Rightarrow> pyval act" where
  "DeleteView_form_valid_process x c =
     seq (rd (attr ''form'' vform)) (\<lambda>f.
     seq (rd (get_db_session x c)) (\<lambda>session.
     seq (rd (delete_obj x f session)) (\<lambda>_.
     seq (emit (DeletedObj f session)) (\<lambda>_.
     seq (upd (\<lambda>w. w\<lparr>vobject := Some PNone\<rparr>)) (\<lambda>_.
     FormView_form_valid_process c)))))"

subsection \<open>Processing a submitted form\<close>

definition form_valid_process :: "ext \<Rightarrow> vclass \<Rightarrow> pyval act" where
  "form_valid_process x c =
     (case kind c of
        CreateView \<Rightarrow> CreateView_form_valid_process x c
      | UpdateView \<Rightarrow> CreateView_form_valid_process x c
      | DeleteView \<Rightarrow> DeleteView_form_valid_process x c
      | _ \<Rightarrow> FormView_form_valid_process c)"

definition form_invalid_process :: "ext \<Rightarrow> vclass \<Rightarrow> pyval act" where
  "form_invalid_process x c =
     seq (rd (attr ''args'' vargs)) (\<lambda>args.
     seq (rd (attr ''kwargs'' vkwargs)) (\<lambda>kwargs.
     FormView_super_get x c args kwargs))"

text \<open>
  \<open>post\<close> is defined by FormView and inherited by CreateView, UpdateView and
  DeleteView; the other classes have no such method.
\<close>

fun has_post :: "kind \<Rightarrow> bool" where
  "has_post FormView = True"
| "has_post CreateView = True"
| "has_post UpdateView = True"
| "has_post DeleteView = True"
| "has_post _ = False"

definition post :: "ext \<Rightarrow> vclass \<Rightarrow> pyval list \<Rightarrow> dict \<Rightarrow> pyval act" where
  "post x c args kwargs =
     (if \<not> has_post (kind c) then (\<lambda>w. Inl (AttributeError ''post''))
      else
        seq (rd (get_form x c)) (\<lambda>f.
        seq (upd (\<lambda>w. w\<lparr>vform := Some f\<rparr>)) (\<lambda>_.
        seq (rd (validate_on_submit x f)) (\<lambda>ok.
        if ok then
          seq (flash_success_message c) (\<lambda>_.
          seq (form_valid c) (\<lambda>r.
          if truthy r then ret r else form_valid_process x c))
        else
          seq (form_invalid c) (\<lambda>r.
          if truthy r then ret r else form_invalid_process x c)))))"

section \<open>The demo app\<close>

record request =
  req_method :: string
  req_form :: "(string \<times> string) list"
  req_args :: "(string \<times> string) list"

text \<open>
  \<open>greeting_user(greeting="Hello")\<close>. \<open>request.form["user_name"]\<close> raises KeyError when
  the field is missing; \<open>request.args.get("user_name", "")\<close> falls back to the default.
  Both give the first value stored under the key.
\<close>

definition greeting_user :: "ext \<Rightarrow> request \<Rightarrow> string \<Rightarrow> pyval act" where
  "greeting_user x r greeting =
     (if req_method r = ''POST'' then
        (case map_of (req_form r) ''user_name'' of
           None \<Rightarrow> (\<lambda>w. Inl (KeyError ''user_name''))
         | Some user_name \<Rightarrow>
             render_template x (PStr ''greeting.html'')
               [(''greeting'', PStr greeting), (''user_name'', PStr user_name)])
      else
        (let user_name = (case map_of (req_args r) ''user_name'' of None \<Rightarrow> '''' | Some v \<Rightarrow> v)
         in render_template x (PStr ''greeting.html'')
              [(''greeting'', PStr greeting), (''user_name'', PStr user_name)]))"

text \<open>
  The two rules of the handler: \<open>/\<close> leaves \<open>greeting\<close> at its default, and
  \<open>/<string:greeting>\<close> binds one non-empty path segment without a slash.
\<close>

definition match_rule :: "string \<Rightarrow> string option" where
  "match_rule path =
     (if path = ''/'' then Some ''Hello''
      else (case path of
              [] \<Rightarrow> None
            | c # seg \<Rightarrow> if c = CHR ''/'' \<and> seg \<noteq> [] \<and> CHR ''/'' \<notin> set seg then Some seg else None))"

text \<open>
  Both rules are registered for GET and POST (and so for HEAD); any other request is
  answered by the framework and never reaches the handler.
\<close>

definition serve :: "ext \<Rightarrow> request \<Rightarrow> string \<Rightarrow> pyval act" where
  "serve x r path =
     (case match_rule path of
        None \<Rightarrow> (\<lambda>w. Inl NotFound)
      | Some greeting \<Rightarrow>
          if req_method r \<in> set [''GET'', ''HEAD'', ''POST''] then greeting_user x r greeting
          else (\<lambda>w. Inl NotHandled))"

section \<open>Sample libraries, instances and classes\<close>

text \<open>
  A form class \<open>PObj n\<close> makes the form \<open>PObj (n + 1)\<close>; only the form \<open>PObj 11\<close>
  validates. Every form holds the record \<open>PObj 20\<close>, whose session is \<open>PObj 30\<close>.
\<close>

definition sample_ext :: ext where
  "sample_ext = \<lparr>
     jinja_render = (\<lambda>name context w. Inr ''<html>''),
     form_class_call = (\<lambda>cls kw w.
        case cls of PObj n \<Rightarrow> Inr (PObj (n + 1)) | _ \<Rightarrow> Inl (Raised (PStr ''TypeError''))),
     validate_on_submit = (\<lambda>f w. Inr (f = PObj 11)),
     form_obj = (\<lambda>f w. Inr (PObj 20)),
     query_session = (\<lambda>obj w. Inr (PObj 30)),
     query_all = (\<lambda>m w. Inr (PList [PObj 20, PObj 21])),
     save_obj = (\<lambda>f session w. Inr ()),
     delete_obj = (\<lambda>f session w. Inr ()),
     MethodView_dispatch_request = (\<lambda>args kwargs. ret (PStr ''<html>''))\<rparr>"

text \<open>A new instance, and one on which \<open>dispatch_request\<close> has stored the URL arguments.\<close>

definition fresh :: world where
  "fresh = \<lparr>vargs = None, vkwargs = None, vform = None, vobject = None, trace = []\<rparr>"

definition routed :: world where
  "routed = \<lparr>vargs = Some [PInt 7], vkwargs = Some [(''id'', PInt 3)], vform = None,
     vobject = None, trace = []\<rparr>"

definition page :: vclass where
  "page = (plain TemplateView ''Page'')\<lparr>template_name := PStr ''page.html'',
     o_get_context := Some (\<lambda>w. [(''title'', PStr ''Home'')])\<rparr>"

definition go_home :: vclass where
  "go_home = (plain RedirectView ''GoHome'')\<lparr>url := PStr ''/'',
     success_message := PStr ''Welcome''\<rparr>"

definition guard :: vclass where
  "guard = (plain TemplateView ''Guard'')\<lparr>template_name := PStr ''page.html'',
     o_dispatch := Some (redirect (PStr ''/login''))\<rparr>"

definition users :: vclass where
  "users = (plain ListView ''Users'')\<lparr>template_name := PStr ''users.html'', model := PObj 40\<rparr>"

definition signup :: vclass where
  "signup = (plain FormView ''Signup'')\<lparr>template_name := PStr ''signup.html'',
     form_class := PObj 10, success_url := PStr ''/done'', success_message := PStr ''Saved''\<rparr>"

definition survey :: vclass where
  "survey = (plain FormView ''Survey'')\<lparr>template_name := PStr ''survey.html'',
     form_class := PObj 12, success_url := PStr ''/done''\<rparr>"

definition add_user :: vclass where
  "add_user = (plain CreateView ''AddUser'')\<lparr>template_name := PStr ''user.html'',
     form_class := PObj 10, success_url := PStr ''/users'',
     o_get_object := Some (\<lambda>w. Inr (PObj 20))\<rparr>"

definition drop_user :: vclass where
  "drop_user = (plain DeleteView ''DropUser'')\<lparr>template_name := PStr ''user.html'',
     form_class := PObj 10, success_url := PStr ''/users'',
     o_get_object := Some (\<lambda>w. Inr (PObj 20))\<rparr>"

section \<open>Basic facts\<close>

lemmas monad_defs = seq_def rd_def upd_def ret_def emit_def rseq_def attr_def

lemmas sample_defs = sample_ext_def fresh_def routed_def plain_def

lemma map_of_dict_update: "map_of (dict_update d e) = map_of d ++ map_of (rev e)"
  unfolding dict_update_def
  by (induction e arbitrary: d)
     (auto simp: update_conv' map_add_def fun_eq_iff split: option.splits)

lemma map_of_rev_distinct: "distinct (map fst e) \<Longrightarrow> map_of (rev e) = map_of e"
  by (subst map_of_inject_set) (simp_all add: rev_map [symmetric])

section \<open>Form views\<close>

text \<open>
  C1: a FormView whose form validates on submit, whose \<open>form_valid()\<close> hook returns no
  result (nothing truthy) and whose success URL resolves to \<open>u\<close>: \<open>post()\<close> returns
  the redirect to \<open>u\<close>. The state \<open>w1\<close> is the instance after the form is bound and
  the success message flashed, \<open>w2\<close> the one the hook leaves.
\<close>

theorem FormView_post_valid_redirects:
  assumes "kind c = FormView"
    and "get_form x c w = Inr f"
    and "validate_on_submit x f (w\<lparr>vform := Some f\<rparr>) = Inr True"
    and "flash_success_message c (w\<lparr>vform := Some f\<rparr>) = Inr ((), w1)"
    and "form_valid c w1 = Inr (r, w2)"
    and "\<not> truthy r"
    and "get_success_url c w2 = Inr u"
  shows "post x c args kwargs w = Inr (PRedirect u, w2\<lparr>trace := trace w2 @ [Redirected u]\<rparr>)"
  using assms
  by (simp add: post_def form_valid_process_def FormView_form_valid_process_def redirect_def
      monad_defs)

theorem FormView_post_valid_redirects_witness:
  "post sample_ext signup [] [] fresh
     = Inr (PRedirect (PStr ''/done''),
            \<lparr>vargs = None, vkwargs = None, vform = Some (PObj 11), vobject = None,
               trace = [Flashed (PStr ''Saved'') (PStr ''success''), Redirected (PStr ''/done'')]\<rparr>)"
proof -
  let ?w1 = "\<lparr>vargs = None, vkwargs = None, vform = Some (PObj 11), vobject = None,
               trace = [Flashed (PStr ''Saved'') (PStr ''success'')]\<rparr>"
  have k: "kind signup = FormView"
    by (simp add: signup_def plain_def)
  have g: "get_form sample_ext signup fresh = Inr (PObj 11)"
    by (simp add: get_form_def signup_def sample_defs)
  have v: "validate_on_submit sample_ext (PObj 11) (fresh\<lparr>vform := Some (PObj 11)\<rparr>) = Inr True"
    by (simp add: sample_ext_def)
  have m: "flash_success_message signup (fresh\<lparr>vform := Some (PObj 11)\<rparr>) = Inr ((), ?w1)"
    by (simp add: flash_success_message_def flash_message_def flash_def get_success_message_def
        signup_def sample_defs monad_defs)
  have h: "form_valid signup ?w1 = Inr (PNone, ?w1)"
    by (simp add: form_valid_def signup_def plain_def ret_def)
  have t: "\<not> truthy PNone"
    by simp
  have u: "get_success_url signup ?w1 = Inr (PStr ''/done'')"
    by (simp add: get_success_url_def signup_def plain_def)
  from FormView_post_valid_redirects [OF k g v m h t u, of "[]" "[]"] show ?thesis
    by simp
qed


text \<open>
  C2: a FormView whose form fails validation and whose \<open>form_invalid()\<close> hook returns
  no result (and leaves the bound form \<open>f\<close> on the instance, \<open>w2\<close>, which holds the
  URL arguments stored by \<open>dispatch_request\<close>): \<open>post()\<close> is the rendering of the
  template named by \<open>get_template_names()\<close> with the context of
  \<open>get_default_context()\<close>, in which \<open>get_context_form_name()\<close> maps to \<open>f\<close> itself.
  No second form is built.
\<close>

theorem FormView_post_invalid_rerenders:
  assumes "kind c = FormView"
    and "get_form x c w = Inr f"
    and "validate_on_submit x f (w\<lparr>vform := Some f\<rparr>) = Inr False"
    and "form_invalid c (w\<lparr>vform := Some f\<rparr>) = Inr (r, w2)"
    and "\<not> truthy r"
    and "vform w2 = Some f"
    and "vargs w2 = Some a"
    and "vkwargs w2 = Some kw"
    and "get_template_names c w2 = Inr t"
  shows "\<exists>context.
           get_default_context x c w2 = Inr context
         \<and> post x c args kwargs w = render_template x t context w2
         \<and> map_of context (get_context_form_name c w2) = Some f"
  using assms
  by (simp add: post_def form_invalid_process_def FormView_super_get_def TemplateView_get_def
      get_default_context_def FormView_get_default_context_def
      TemplateView_get_default_context_def update_conv' monad_defs)

theorem FormView_post_invalid_rerenders_witness:
  "\<exists>context.
     get_default_context sample_ext survey (routed\<lparr>vform := Some (PObj 13)\<rparr>) = Inr context
   \<and> post sample_ext survey [PInt 7] [(''id'', PInt 3)] routed
       = render_template sample_ext (PStr ''survey.html'') context
           (routed\<lparr>vform := Some (PObj 13)\<rparr>)
   \<and> map_of context ''form'' = Some (PObj 13)"
proof -
  let ?w2 = "routed\<lparr>vform := Some (PObj 13)\<rparr>"
  have k: "kind survey = FormView"
    by (simp add: survey_def plain_def)
  have g: "get_form sample_ext survey routed = Inr (PObj 13)"
    by (simp add: get_form_def survey_def sample_defs)
  have v: "validate_on_submit sample_ext (PObj 13) ?w2 = Inr False"
    by (simp add: sample_ext_def)
  have h: "form_invalid survey ?w2 = Inr (PNone, ?w2)"
    by (simp add: form_invalid_def survey_def plain_def ret_def)
  have t: "\<not> truthy PNone"
    by simp
  have f: "vform ?w2 = Some (PObj 13)"
    by simp
  have a: "vargs ?w2 = Some [PInt 7]"
    by (simp add: routed_def)
  have kw: "vkwargs ?w2 = Some [(''id'', PInt 3)]"
    by (simp add: routed_def)
  have n: "get_template_names survey ?w2 = Inr (PStr ''survey.html'')"
    by (simp add: get_template_names_def survey_def plain_def)
  have name: "get_context_form_name survey ?w2 = ''form''"
    by (simp add: get_context_form_name_def survey_def plain_def)
  from FormView_post_invalid_rerenders [OF k g v h t f a kw n, of "[PInt 7]" "[(''id'', PInt 3)]"]
  show ?thesis
    by (simp add: name)
qed

text \<open>
  C8: a CreateView or UpdateView (respectively a DeleteView) whose form validates and
  whose \<open>form_valid()\<close> hook returns no result. With \<open>f2\<close> the form on the instance
  and \<open>s\<close> the session \<open>get_db_session()\<close> returns, \<open>post()\<close> calls
  \<open>f2.save_obj(s)\<close> (respectively \<open>f2.delete_obj(s)\<close>), then makes the redirect to the
  success URL, and leaves \<open>self.object\<close> holding the form's record (respectively None).
\<close>

theorem persist_then_redirect:
  assumes "get_form x c w = Inr f"
    and "validate_on_submit x f (w\<lparr>vform := Some f\<rparr>) = Inr True"
    and "flash_success_message c (w\<lparr>vform := Some f\<rparr>) = Inr ((), w1)"
    and "form_valid c w1 = Inr (r, w2)"
    and "\<not> truthy r"
    and "vform w2 = Some f2"
    and "get_db_session x c w2 = Inr s"
  shows "(kind c \<in> {CreateView, UpdateView}
          \<and> save_obj x f2 s w2 = Inr ()
          \<and> form_obj x f2 (w2\<lparr>trace := trace w2 @ [SavedObj f2 s]\<rparr>) = Inr obj
          \<and> get_success_url c (w2\<lparr>trace := trace w2 @ [SavedObj f2 s], vobject := Some obj\<rparr>)
              = Inr u
          \<longrightarrow> post x c args kwargs w
              = Inr (PRedirect u,
                     w2\<lparr>vobject := Some obj,
                        trace := trace w2 @ [SavedObj f2 s, Redirected u]\<rparr>))
       \<and> (kind c = DeleteView
          \<and> delete_obj x f2 s w2 = Inr ()
          \<and> get_success_url c
                (w2\<lparr>trace := trace w2 @ [DeletedObj f2 s], vobject := Some PNone\<rparr>) = Inr u
          \<longrightarrow> post x c args kwargs w
              = Inr (PRedirect u,
                     w2\<lparr>vobject := Some PNone,
                        trace := trace w2 @ [DeletedObj f2 s, Redirected u]\<rparr>))"
  using assms
  by (auto simp add: post_def form_valid_process_def CreateView_form_valid_process_def
      DeleteView_form_valid_process_def FormView_form_valid_process_def redirect_def monad_defs)

theorem persist_then_redirect_witness:
  "post sample_ext add_user [] [] fresh
     = Inr (PRedirect (PStr ''/users''),
            \<lparr>vargs = None, vkwargs = None, vform = Some (PObj 11), vobject = Some (PObj 20),
               trace = [SavedObj (PObj 11) (PObj 30), Redirected (PStr ''/users'')]\<rparr>)
   \<and> post sample_ext drop_user [] [] fresh
     = Inr (PRedirect (PStr ''/users''),
            \<lparr>vargs = None, vkwargs = None, vform = Some (PObj 11), vobject = Some PNone,
               trace = [DeletedObj (PObj 11) (PObj 30), Redirected (PStr ''/users'')]\<rparr>)"
proof -
  let ?w1 = "fresh\<lparr>vform := Some (PObj 11)\<rparr>"
  have v: "validate_on_submit sample_ext (PObj 11) ?w1 = Inr True"
    by (simp add: sample_ext_def)
  have t: "\<not> truthy PNone"
    by simp
  have f2: "vform ?w1 = Some (PObj 11)"
    by simp
  have g1: "get_form sample_ext add_user fresh = Inr (PObj 11)"
    by (simp add: get_form_def get_object_def add_user_def rseq_def sample_defs)
  have m1: "flash_success_message add_user ?w1 = Inr ((), ?w1)"
    by (simp add: flash_success_message_def flash_message_def get_success_message_def
        add_user_def plain_def ret_def)
  have h1: "form_valid add_user ?w1 = Inr (PNone, ?w1)"
    by (simp add: form_valid_def add_user_def plain_def ret_def)
  have s1: "get_db_session sample_ext add_user ?w1 = Inr (PObj 30)"
    by (simp add: get_db_session_def add_user_def sample_defs monad_defs)
  have g2: "get_form sample_ext drop_user fresh = Inr (PObj 11)"
    by (simp add: get_form_def get_object_def drop_user_def rseq_def sample_defs)
  have m2: "flash_success_message drop_user ?w1 = Inr ((), ?w1)"
    by (simp add: flash_success_message_def flash_message_def get_success_message_def
        drop_user_def plain_def ret_def)
  have h2: "form_valid drop_user ?w1 = Inr (PNone, ?w1)"
    by (simp add: form_valid_def drop_user_def plain_def ret_def)
  have s2: "get_db_session sample_ext drop_user ?w1 = Inr (PObj 30)"
    by (simp add: get_db_session_def drop_user_def sample_defs monad_defs)
  have created: "post sample_ext add_user [] [] fresh
     = Inr (PRedirect (PStr ''/users''),
            ?w1\<lparr>vobject := Some (PObj 20),
                trace := trace ?w1 @ [SavedObj (PObj 11) (PObj 30), Redirected (PStr ''/users'')]\<rparr>)"
    using persist_then_redirect [OF g1 v m1 h1 t f2 s1,
        of "PObj 20" "PStr ''/users''" "[]" "[]"]
    by (simp add: get_success_url_def add_user_def sample_defs)
  have deleted: "post sample_ext drop_user [] [] fresh
     = Inr (PRedirect (PStr ''/users''),
            ?w1\<lparr>vobject := Some PNone,
                trace := trace ?w1 @ [DeletedObj (PObj 11) (PObj 30), Redirected (PStr ''/users'')]\<rparr>)"
    using persist_then_redirect [OF g2 v m2 h2 t f2 s2,
        of "PObj 20" "PStr ''/users''" "[]" "[]"]
    by (simp add: get_success_url_def drop_user_def sample_defs)
  from created deleted show ?thesis
    by (simp add: fresh_def)
qed

section \<open>Redirect views\<close>

text \<open>
  C3: a RedirectView whose URL resolves to \<open>u\<close>: GET returns the redirect to \<open>u\<close>.
  The calls it adds to the trace are one flash of \<open>get_success_message()\<close> in category
  "success" when that message is truthy (not None and not the empty string), none
  otherwise, and after that the redirect.
\<close>

theorem RedirectView_get_flashes_then_redirects:
  assumes "kind c = RedirectView"
    and "get_url c
           (w\<lparr>trace := trace w @
                (if truthy (get_success_message c w)
                 then [Flashed (get_success_message c w) (PStr ''success'')] else [])\<rparr>) = Inr u"
  shows "get x c args kwargs w
           = Inr (PRedirect u,
                  w\<lparr>trace := trace w @
                       (if truthy (get_success_message c w)
                        then [Flashed (get_success_message c w) (PStr ''success'')] else [])
                       @ [Redirected u]\<rparr>)"
  using assms
  by (cases "truthy (get_success_message c w)")
     (simp_all add: get_def RedirectView_get_def flash_success_message_def flash_message_def
        flash_def redirect_def monad_defs)

theorem RedirectView_get_flashes_then_redirects_witness:
  "get sample_ext go_home [] [] fresh
     = Inr (PRedirect (PStr ''/''),
            fresh\<lparr>trace := [Flashed (PStr ''Welcome'') (PStr ''success''), Redirected (PStr ''/'')]\<rparr>)
   \<and> get sample_ext (go_home\<lparr>success_message := PStr ''''\<rparr>) [] [] fresh
     = Inr (PRedirect (PStr ''/''), fresh\<lparr>trace := [Redirected (PStr ''/'')]\<rparr>)
   \<and> get sample_ext (go_home\<lparr>success_message := PNone\<rparr>) [] [] fresh
     = Inr (PRedirect (PStr ''/''), fresh\<lparr>trace := [Redirected (PStr ''/'')]\<rparr>)"
proof -
  have k: "kind (go_home\<lparr>success_message := m\<rparr>) = RedirectView" for m
    by (simp add: go_home_def plain_def)
  have u: "get_url (go_home\<lparr>success_message := m\<rparr>) w = Inr (PStr ''/'')" for m w
    by (simp add: get_url_def go_home_def plain_def)
  have m: "get_success_message (go_home\<lparr>success_message := m\<rparr>) w = m" for m w
    by (simp add: get_success_message_def go_home_def plain_def)
  have same: "go_home\<lparr>success_message := PStr ''Welcome''\<rparr> = go_home"
    by (simp add: go_home_def)
  have "get sample_ext (go_home\<lparr>success_message := PStr ''Welcome''\<rparr>) [] [] fresh
     = Inr (PRedirect (PStr ''/''),
            fresh\<lparr>trace := [Flashed (PStr ''Welcome'') (PStr ''success''), Redirected (PStr ''/'')]\<rparr>)"
    using RedirectView_get_flashes_then_redirects
        [where c = "go_home\<lparr>success_message := PStr ''Welcome''\<rparr>" and w = fresh and x = sample_ext
           and args = "[]" and kwargs = "[]", OF k u]
    by (simp add: m fresh_def)
  moreover have "get sample_ext (go_home\<lparr>success_message := PStr ''''\<rparr>) [] [] fresh
     = Inr (PRedirect (PStr ''/''), fresh\<lparr>trace := [Redirected (PStr ''/'')]\<rparr>)"
    using RedirectView_get_flashes_then_redirects
        [where c = "go_home\<lparr>success_message := PStr ''''\<rparr>" and w = fresh and x = sample_ext
           and args = "[]" and kwargs = "[]", OF k u]
    by (simp add: m fresh_def)
  moreover have "get sample_ext (go_home\<lparr>success_message := PNone\<rparr>) [] [] fresh
     = Inr (PRedirect (PStr ''/''), fresh\<lparr>trace := [Redirected (PStr ''/'')]\<rparr>)"
    using RedirectView_get_flashes_then_redirects
        [where c = "go_home\<lparr>success_message := PNone\<rparr>" and w = fresh and x = sample_ext
           and args = "[]" and kwargs = "[]", OF k u]
    by (simp add: m fresh_def)
  ultimately show ?thesis
    by (simp add: same)
qed

section \<open>Template and list views\<close>

text \<open>
  C6: a ListView with a model (not None) that does not override \<open>get_object_list\<close>,
  on an instance holding the URL keyword arguments and with a resolvable template name.
  GET is the rendering of that template with the context of \<open>get_default_context()\<close>,
  and that context maps \<open>get_context_object_list_name()\<close> to the very value
  \<open>model.query.all()\<close> returned. Without an override and with the attribute left as
  the source sets it, that name is "object_list".
\<close>

theorem ListView_context_holds_query_all:
  assumes "kind c = ListView"
    and "model c \<noteq> PNone"
    and "o_get_object_list c = None"
    and "query_all x (model c) w = Inr xs"
    and "vkwargs w = Some kw"
    and "get_template_names c w = Inr t"
  shows "(\<exists>context.
            get_default_context x c w = Inr context
          \<and> get x c args kwargs w = render_template x t context w
          \<and> map_of context (get_context_object_list_name c w) = Some xs)
       \<and> get_context_object_list_name (plain ListView n) w = ''object_list''"
  using assms
  by (simp add: get_def TemplateView_get_def get_default_context_def
      ListView_get_default_context_def TemplateView_get_default_context_def
      get_object_list_def get_context_object_list_name_def plain_def update_conv' monad_defs)

theorem ListView_context_holds_query_all_witness:
  "\<exists>context.
     get_default_context sample_ext users routed = Inr context
   \<and> get sample_ext users [PInt 7] [(''id'', PInt 3)] routed
       = render_template sample_ext (PStr ''users.html'') context routed
   \<and> map_of context ''object_list'' = Some (PList [PObj 20, PObj 21])"
proof -
  have k: "kind users = ListView"
    by (simp add: users_def plain_def)
  have m: "model users \<noteq> PNone"
    by (simp add: users_def plain_def)
  have o: "o_get_object_list users = None"
    by (simp add: users_def plain_def)
  have q: "query_all sample_ext (model users) routed = Inr (PList [PObj 20, PObj 21])"
    by (simp add: sample_ext_def)
  have kw: "vkwargs routed = Some [(''id'', PInt 3)]"
    by (simp add: routed_def)
  have t: "get_template_names users routed = Inr (PStr ''users.html'')"
    by (simp add: get_template_names_def users_def plain_def)
  have name: "get_context_object_list_name users routed = ''object_list''"
    by (simp add: get_context_object_list_name_def users_def plain_def)
  from ListView_context_holds_query_all [OF k m o q kw t, of "[PInt 7]" "[(''id'', PInt 3)]"]
  show ?thesis
    by (simp add: name)
qed

text \<open>
  C7, as stated, fails: the context holds the view and the keyword arguments, and no
  entry for the positional arguments. Here the instance holds the positional argument 7
  and the keyword argument \<open>id = 3\<close>, and the subclass adds \<open>title\<close>.
\<close>

theorem TemplateView_context_omits_args:
  "vargs routed = Some [PInt 7]
 \<and> get_default_context sample_ext page routed
     = Inr [(''view'', PSelf), (''kwargs'', PDict [(''id'', PInt 3)]), (''title'', PStr ''Home'')]
 \<and> get sample_ext page [PInt 7] [(''id'', PInt 3)] routed
     = render_template sample_ext (PStr ''page.html'')
         [(''view'', PSelf), (''kwargs'', PDict [(''id'', PInt 3)]), (''title'', PStr ''Home'')]
         routed"
  by (simp add: get_def TemplateView_get_def get_default_context_def
      TemplateView_get_default_context_def get_template_names_def get_context_def
      dict_update_def page_def sample_defs monad_defs)

text \<open>
  C7, amended: a TemplateView with a resolvable template name, on an instance holding the
  URL keyword arguments \<open>kw\<close>. GET is the rendering of that template with a context in
  which every pair of \<open>get_context()\<close> is present (so a subclass pair wins over a
  default one with the same key), and in which the other keys are \<open>view\<close>, bound to
  the view instance, and \<open>kwargs\<close>, bound to \<open>kw\<close>, and nothing else.
\<close>

theorem TemplateView_get_renders_context:
  assumes "kind c = TemplateView"
    and "get_template_names c w = Inr t"
    and "vkwargs w = Some kw"
    and "distinct (map fst (get_context c w))"
  shows "\<exists>context.
           get x c args kwargs w = render_template x t context w
         \<and> (\<forall>k v. map_of (get_context c w) k = Some v \<longrightarrow> map_of context k = Some v)
         \<and> (\<forall>k. map_of (get_context c w) k = None \<longrightarrow>
                map_of context k = map_of [(''view'', PSelf), (''kwargs'', PDict kw)] k)"
proof -
  let ?ctx = "dict_update [(''view'', PSelf), (''kwargs'', PDict kw)] (get_context c w)"
  have run: "get x c args kwargs w = render_template x t ?ctx w"
    using assms(1-3)
    by (simp add: get_def TemplateView_get_def get_default_context_def
        TemplateView_get_default_context_def monad_defs)
  have look: "map_of ?ctx
                = map_of [(''view'', PSelf), (''kwargs'', PDict kw)] ++ map_of (get_context c w)"
    using assms(4) by (simp add: map_of_dict_update map_of_rev_distinct)
  have sub: "\<forall>k v. map_of (get_context c w) k = Some v \<longrightarrow> map_of ?ctx k = Some v"
    by (simp add: look map_add_def)
  have base: "\<forall>k. map_of (get_context c w) k = None \<longrightarrow>
                map_of ?ctx k = map_of [(''view'', PSelf), (''kwargs'', PDict kw)] k"
    by (simp add: look map_add_def)
  from run sub base show ?thesis by blast
qed

theorem TemplateView_get_renders_context_witness:
  "\<exists>context.
     get sample_ext page [PInt 7] [(''id'', PInt 3)] routed
       = render_template sample_ext (PStr ''page.html'') context routed
   \<and> map_of context ''title'' = Some (PStr ''Home'')
   \<and> map_of context ''view'' = Some PSelf
   \<and> map_of context ''kwargs'' = Some (PDict [(''id'', PInt 3)])
   \<and> map_of context ''args'' = None"
proof -
  have k: "kind page = TemplateView"
    by (simp add: page_def plain_def)
  have t: "get_template_names page routed = Inr (PStr ''page.html'')"
    by (simp add: get_template_names_def page_def plain_def)
  have kw: "vkwargs routed = Some [(''id'', PInt 3)]"
    by (simp add: routed_def)
  have g: "get_context page routed = [(''title'', PStr ''Home'')]"
    by (simp add: get_context_def page_def plain_def)
  have d: "distinct (map fst (get_context page routed))"
    by (simp add: g)
  from TemplateView_get_renders_context [OF k t kw d, of sample_ext "[PInt 7]" "[(''id'', PInt 3)]"]
  obtain ctx where
    run: "get sample_ext page [PInt 7] [(''id'', PInt 3)] routed
            = render_template sample_ext (PStr ''page.html'') ctx routed"
    and sub: "\<And>k v. map_of (get_context page routed) k = Some v \<Longrightarrow> map_of ctx k = Some v"
    and base: "\<And>k. map_of (get_context page routed) k = None \<Longrightarrow>
                 map_of ctx k = map_of [(''view'', PSelf), (''kwargs'', PDict [(''id'', PInt 3)])] k"
    by blast
  have "map_of ctx ''title'' = Some (PStr ''Home'')"
    using sub [of "''title''" "PStr ''Home''"] by (simp add: g)
  moreover have "map_of ctx ''view'' = Some PSelf"
    using base [of "''view''"] by (simp add: g)
  moreover have "map_of ctx ''kwargs'' = Some (PDict [(''id'', PInt 3)])"
    using base [of "''kwargs''"] by (simp add: g)
  moreover have "map_of ctx ''args'' = None"
    using base [of "''args''"] by (simp add: g)
  ultimately show ?thesis
    using run by blast
qed

section \<open>Configuration errors\<close>

text \<open>
  C4: each resolver of a required value. When the subclass neither sets the attribute
  nor overrides the method, the resolver raises ImproperlyConfigured with a message that
  starts with the name of the subclass. When the attribute is set (is not None) the
  resolver returns it (for \<open>model\<close>: the result of \<open>model.query.all()\<close>), and when
  the method is overridden the resolver is the override: in both cases the check of the
  base class does not raise. \<open>get_object\<close> has no attribute: it must be overridden.
\<close>

theorem resolvers_raise_iff_unconfigured:
  "(o_get_template_names c = None \<and> template_name c = PNone \<longrightarrow>
      get_template_names c w = Inl (ImproperlyConfigured
        (cname c @ '' must define either `template_name` or `get_template_names()`'')))
 \<and> (o_get_template_names c = None \<and> template_name c \<noteq> PNone \<longrightarrow>
      get_template_names c w = Inr (template_name c))
 \<and> (o_get_template_names c = Some f1 \<longrightarrow> get_template_names c w = f1 w)
 \<and> (o_get_url c = None \<and> url c = PNone \<longrightarrow>
      get_url c w = Inl (ImproperlyConfigured
        (cname c @ '' must define either `url` or `get_url()`'')))
 \<and> (o_get_url c = None \<and> url c \<noteq> PNone \<longrightarrow> get_url c w = Inr (url c))
 \<and> (o_get_url c = Some f2 \<longrightarrow> get_url c w = f2 w)
 \<and> (o_get_object_list c = None \<and> model c = PNone \<longrightarrow>
      get_object_list x c w = Inl (ImproperlyConfigured
        (cname c @ '' must define either `model` or `get_object_list()`'')))
 \<and> (o_get_object_list c = None \<and> model c \<noteq> PNone \<longrightarrow>
      get_object_list x c w = query_all x (model c) w)
 \<and> (o_get_object_list c = Some f3 \<longrightarrow> get_object_list x c w = f3 w)
 \<and> (o_get_object c = None \<longrightarrow>
      get_object c w = Inl (ImproperlyConfigured (cname c @ '' must define `get_object()`'')))
 \<and> (o_get_object c = Some f4 \<longrightarrow> get_object c w = f4 w)
 \<and> (o_get_success_url c = None \<and> success_url c = PNone \<longrightarrow>
      get_success_url c w = Inl (ImproperlyConfigured
        (cname c @ '' must define either `success_url` or `get_success_url()`'')))
 \<and> (o_get_success_url c = None \<and> success_url c \<noteq> PNone \<longrightarrow>
      get_success_url c w = Inr (success_url c))
 \<and> (o_get_success_url c = Some f5 \<longrightarrow> get_success_url c w = f5 w)"
  by (simp add: get_template_names_def get_url_def get_object_list_def get_object_def
      get_success_url_def)

theorem resolvers_raise_iff_unconfigured_witness:
  "get_template_names (plain TemplateView ''Bare'') fresh
     = Inl (ImproperlyConfigured
         ''Bare must define either `template_name` or `get_template_names()`'')
 \<and> get_url (plain RedirectView ''Bare'') fresh
     = Inl (ImproperlyConfigured ''Bare must define either `url` or `get_url()`'')
 \<and> get_object_list sample_ext (plain ListView ''Bare'') fresh
     = Inl (ImproperlyConfigured ''Bare must define either `model` or `get_object_list()`'')
 \<and> get_object (plain DetailView ''Bare'') fresh
     = Inl (ImproperlyConfigured ''Bare must define `get_object()`'')
 \<and> get_success_url (plain FormView ''Bare'') fresh
     = Inl (ImproperlyConfigured
         ''Bare must define either `success_url` or `get_success_url()`'')
 \<and> get_template_names page fresh = Inr (PStr ''page.html'')
 \<and> get_url go_home fresh = Inr (PStr ''/'')
 \<and> get_object_list sample_ext users fresh = Inr (PList [PObj 20, PObj 21])
 \<and> get_success_url signup fresh = Inr (PStr ''/done'')
 \<and> get_object add_user fresh = Inr (PObj 20)
 \<and> get_template_names
       ((plain TemplateView ''Own'')\<lparr>o_get_template_names := Some (\<lambda>w. Inr (PStr ''own.html''))\<rparr>)
       fresh = Inr (PStr ''own.html'')
 \<and> get_url ((plain RedirectView ''Own'')\<lparr>o_get_url := Some (\<lambda>w. Inr (PStr ''/own''))\<rparr>) fresh
     = Inr (PStr ''/own'')
 \<and> get_object_list sample_ext
       ((plain ListView ''Own'')\<lparr>o_get_object_list := Some (\<lambda>w. Inr (PList []))\<rparr>) fresh
     = Inr (PList [])
 \<and> get_success_url
       ((plain FormView ''Own'')\<lparr>o_get_success_url := Some (\<lambda>w. Inr (PStr ''/own''))\<rparr>) fresh
     = Inr (PStr ''/own'')"
proof -
  note bare = resolvers_raise_iff_unconfigured [where w = fresh and x = sample_ext]
  have "get_template_names (plain TemplateView ''Bare'') fresh
     = Inl (ImproperlyConfigured
         ''Bare must define either `template_name` or `get_template_names()`'')"
    using bare [where c = "plain TemplateView ''Bare''"] by (simp add: plain_def)
  moreover have "get_url (plain RedirectView ''Bare'') fresh
     = Inl (ImproperlyConfigured ''Bare must define either `url` or `get_url()`'')"
    using bare [where c = "plain RedirectView ''Bare''"] by (simp add: plain_def)
  moreover have "get_object_list sample_ext (plain ListView ''Bare'') fresh
     = Inl (ImproperlyConfigured ''Bare must define either `model` or `get_object_list()`'')"
    using bare [where c = "plain ListView ''Bare''"] by (simp add: plain_def)
  moreover have "get_object (plain DetailView ''Bare'') fresh
     = Inl (ImproperlyConfigured ''Bare must define `get_object()`'')"
    using bare [where c = "plain DetailView ''Bare''"] by (simp add: plain_def)
  moreover have "get_success_url (plain FormView ''Bare'') fresh
     = Inl (ImproperlyConfigured
         ''Bare must define either `success_url` or `get_success_url()`'')"
    using bare [where c = "plain FormView ''Bare''"] by (simp add: plain_def)
  moreover have "get_template_names page fresh = Inr (PStr ''page.html'')"
    using bare [where c = page] by (simp add: page_def plain_def)
  moreover have "get_url go_home fresh = Inr (PStr ''/'')"
    using bare [where c = go_home] by (simp add: go_home_def plain_def)
  moreover have "get_object_list sample_ext users fresh = Inr (PList [PObj 20, PObj 21])"
    using bare [where c = users] by (simp add: users_def plain_def sample_ext_def)
  moreover have "get_success_url signup fresh = Inr (PStr ''/done'')"
    using bare [where c = signup] by (simp add: signup_def plain_def)
  moreover have "get_object add_user fresh = Inr (PObj 20)"
    using bare [where c = add_user and ?f4.0 = "\<lambda>w. Inr (PObj 20)"]
    by (simp add: add_user_def plain_def)
  moreover have "get_template_names
       ((plain TemplateView ''Own'')\<lparr>o_get_template_names := Some (\<lambda>w. Inr (PStr ''own.html''))\<rparr>)
       fresh = Inr (PStr ''own.html'')"
    using bare [where c = "(plain TemplateView ''Own'')\<lparr>o_get_template_names :=
                             Some (\<lambda>w. Inr (PStr ''own.html''))\<rparr>"
                  and ?f1.0 = "\<lambda>w. Inr (PStr ''own.html'')"]
    by simp
  moreover have "get_url
       ((plain RedirectView ''Own'')\<lparr>o_get_url := Some (\<lambda>w. Inr (PStr ''/own''))\<rparr>) fresh
     = Inr (PStr ''/own'')"
    using bare [where c = "(plain RedirectView ''Own'')\<lparr>o_get_url := Some (\<lambda>w. Inr (PStr ''/own''))\<rparr>"
                  and ?f2.0 = "\<lambda>w. Inr (PStr ''/own'')"]
    by simp
  moreover have "get_object_list sample_ext
       ((plain ListView ''Own'')\<lparr>o_get_object_list := Some (\<lambda>w. Inr (PList []))\<rparr>) fresh
     = Inr (PList [])"
    using bare [where c = "(plain ListView ''Own'')\<lparr>o_get_object_list := Some (\<lambda>w. Inr (PList []))\<rparr>"
                  and ?f3.0 = "\<lambda>w. Inr (PList [])"]
    by simp
  moreover have "get_success_url
       ((plain FormView ''Own'')\<lparr>o_get_success_url := Some (\<lambda>w. Inr (PStr ''/own''))\<rparr>) fresh
     = Inr (PStr ''/own'')"
    using bare [where c = "(plain FormView ''Own'')\<lparr>o_get_success_url :=
                             Some (\<lambda>w. Inr (PStr ''/own''))\<rparr>"
                  and ?f5.0 = "\<lambda>w. Inr (PStr ''/own'')"]
    by simp
  ultimately show ?thesis
    by blast
qed

section \<open>Dispatch\<close>

text \<open>
  C5: \<open>dispatch_request(*args, **kwargs)\<close> stores \<open>args\<close> and \<open>kwargs\<close> on the
  instance and runs the hook \<open>dispatch()\<close> on that instance. A truthy result of the
  hook is the result of \<open>dispatch_request\<close>; after any other result the verb dispatch
  of MethodView runs with the same arguments and gives the result. The hook of the base
  class returns None, so without an override the verb dispatch always runs.
\<close>

theorem dispatch_request_hook_first:
  "(dispatch c (w\<lparr>vargs := Some args, vkwargs := Some kwargs\<rparr>) = Inr (r, w2) \<and> truthy r
      \<longrightarrow> dispatch_request x c args kwargs w = Inr (r, w2))
 \<and> (dispatch c (w\<lparr>vargs := Some args, vkwargs := Some kwargs\<rparr>) = Inr (r, w2) \<and> \<not> truthy r
      \<longrightarrow> dispatch_request x c args kwargs w = MethodView_dispatch_request x args kwargs w2)
 \<and> (o_dispatch c = None
      \<longrightarrow> dispatch c w = Inr (PNone, w)
        \<and> dispatch_request x c args kwargs w
          = MethodView_dispatch_request x args kwargs
              (w\<lparr>vargs := Some args, vkwargs := Some kwargs\<rparr>))"
  by (simp add: dispatch_request_def dispatch_def monad_defs)

theorem dispatch_request_hook_first_witness:
  "dispatch_request sample_ext guard [PInt 7] [(''id'', PInt 3)] fresh
     = Inr (PRedirect (PStr ''/login''), routed\<lparr>trace := [Redirected (PStr ''/login'')]\<rparr>)
 \<and> dispatch_request sample_ext (guard\<lparr>o_dispatch := Some (ret (PStr ''''))\<rparr>)
       [PInt 7] [(''id'', PInt 3)] fresh
     = Inr (PStr ''<html>'', routed)
 \<and> dispatch_request sample_ext page [PInt 7] [(''id'', PInt 3)] fresh
     = Inr (PStr ''<html>'', routed)"
proof -
  have w: "fresh\<lparr>vargs := Some [PInt 7], vkwargs := Some [(''id'', PInt 3)]\<rparr> = routed"
    by (simp add: fresh_def routed_def)
  have h1: "dispatch guard (fresh\<lparr>vargs := Some [PInt 7], vkwargs := Some [(''id'', PInt 3)]\<rparr>)
              = Inr (PRedirect (PStr ''/login''), routed\<lparr>trace := [Redirected (PStr ''/login'')]\<rparr>)
            \<and> truthy (PRedirect (PStr ''/login''))"
    by (simp add: dispatch_def guard_def redirect_def sample_defs monad_defs)
  have h2: "dispatch (guard\<lparr>o_dispatch := Some (ret (PStr ''''))\<rparr>)
              (fresh\<lparr>vargs := Some [PInt 7], vkwargs := Some [(''id'', PInt 3)]\<rparr>)
              = Inr (PStr '''', routed)
            \<and> \<not> truthy (PStr '''')"
    by (simp add: dispatch_def guard_def sample_defs monad_defs)
  have h3: "o_dispatch page = None"
    by (simp add: page_def plain_def)
  have m: "MethodView_dispatch_request sample_ext a k routed = Inr (PStr ''<html>'', routed)" for a k
    by (simp add: sample_ext_def ret_def)
  from dispatch_request_hook_first
         [where c = guard and w = fresh and x = sample_ext and args = "[PInt 7]"
            and kwargs = "[(''id'', PInt 3)]" and r = "PRedirect (PStr ''/login'')"
            and ?w2.0 = "routed\<lparr>trace := [Redirected (PStr ''/login'')]\<rparr>"] h1
  have a: "dispatch_request sample_ext guard [PInt 7] [(''id'', PInt 3)] fresh
     = Inr (PRedirect (PStr ''/login''), routed\<lparr>trace := [Redirected (PStr ''/login'')]\<rparr>)"
    by blast
  from dispatch_request_hook_first
         [where c = "guard\<lparr>o_dispatch := Some (ret (PStr ''''))\<rparr>" and w = fresh
            and x = sample_ext and args = "[PInt 7]" and kwargs = "[(''id'', PInt 3)]"
            and r = "PStr ''''" and ?w2.0 = routed] h2
  have b: "dispatch_request sample_ext (guard\<lparr>o_dispatch := Some (ret (PStr ''''))\<rparr>)
       [PInt 7] [(''id'', PInt 3)] fresh
     = Inr (PStr ''<html>'', routed)"
    by (simp add: m)
  from dispatch_request_hook_first
         [where c = page and w = fresh and x = sample_ext and args = "[PInt 7]"
            and kwargs = "[(''id'', PInt 3)]"] h3
  have c: "dispatch_request sample_ext page [PInt 7] [(''id'', PInt 3)] fresh
     = Inr (PStr ''<html>'', routed)"
    by (simp add: m w)
  from a b c show ?thesis
    by blast
qed

section \<open>Properties of the demo app\<close>

text \<open>
  C9: the three cases of the demo app. GET \<open>/\<close> without \<open>user_name\<close> renders
  \<open>greeting.html\<close> with greeting "Hello" and user_name ""; GET \<open>/Hi?user_name=Bob\<close>
  renders greeting "Hi" and user_name "Bob"; POST \<open>/\<close> with form field
  \<open>user_name=Alice\<close> renders greeting "Hello" and user_name "Alice".
\<close>

theorem demo_three_cases:
  "serve x \<lparr>req_method = ''GET'', req_form = [], req_args = []\<rparr> ''/''
     = render_template x (PStr ''greeting.html'')
         [(''greeting'', PStr ''Hello''), (''user_name'', PStr '''')]
   \<and> serve x \<lparr>req_method = ''GET'', req_form = [], req_args = [(''user_name'', ''Bob'')]\<rparr> ''/Hi''
     = render_template x (PStr ''greeting.html'')
         [(''greeting'', PStr ''Hi''), (''user_name'', PStr ''Bob'')]
   \<and> serve x \<lparr>req_method = ''POST'', req_form = [(''user_name'', ''Alice'')], req_args = []\<rparr> ''/''
     = render_template x (PStr ''greeting.html'')
         [(''greeting'', PStr ''Hello''), (''user_name'', PStr ''Alice'')]"
  by (simp add: serve_def match_rule_def greeting_user_def)

text \<open>
  C10: the handler treats a missing \<open>user_name\<close> differently for the two verbs. A POST
  whose form body has no field \<open>user_name\<close> raises KeyError, whatever the greeting;
  a GET whose query string has no \<open>user_name\<close> renders the template with the empty
  string as the name.
\<close>

theorem demo_missing_user_name:
  "(req_method r = ''POST'' \<and> ''user_name'' \<notin> fst ` set (req_form r)
      \<longrightarrow> greeting_user x r greeting w = Inl (KeyError ''user_name''))
 \<and> (req_method r = ''GET'' \<and> ''user_name'' \<notin> fst ` set (req_args r)
      \<longrightarrow> greeting_user x r greeting w
          = render_template x (PStr ''greeting.html'')
              [(''greeting'', PStr greeting), (''user_name'', PStr '''')] w)"
  by (simp add: greeting_user_def map_of_eq_None_iff [symmetric])

theorem demo_missing_user_name_witness:
  "greeting_user sample_ext
     \<lparr>req_method = ''POST'', req_form = [(''nickname'', ''Al'')], req_args = [(''user_name'', ''Bob'')]\<rparr>
     ''Hello'' fresh = Inl (KeyError ''user_name'')
 \<and> greeting_user sample_ext
     \<lparr>req_method = ''GET'', req_form = [(''user_name'', ''Alice'')], req_args = [(''page'', ''2'')]\<rparr>
     ''Hello'' fresh
     = Inr (PStr ''<html>'',
            fresh\<lparr>trace := [Rendered (PStr ''greeting.html'')
                               [(''greeting'', PStr ''Hello''), (''user_name'', PStr '''')]]\<rparr>)"
proof -
  have a: "greeting_user sample_ext
     \<lparr>req_method = ''POST'', req_form = [(''nickname'', ''Al'')], req_args = [(''user_name'', ''Bob'')]\<rparr>
     ''Hello'' fresh = Inl (KeyError ''user_name'')"
    using demo_missing_user_name
      [where r = "\<lparr>req_method = ''POST'', req_form = [(''nickname'', ''Al'')],
                    req_args = [(''user_name'', ''Bob'')]\<rparr>"
         and x = sample_ext and greeting = "''Hello''" and w = fresh]
    by simp
  have b: "greeting_user sample_ext
     \<lparr>req_method = ''GET'', req_form = [(''user_name'', ''Alice'')], req_args = [(''page'', ''2'')]\<rparr>
     ''Hello'' fresh
     = render_template sample_ext (PStr ''greeting.html'')
         [(''greeting'', PStr ''Hello''), (''user_name'', PStr '''')] fresh"
    using demo_missing_user_name
      [where r = "\<lparr>req_method = ''GET'', req_form = [(''user_name'', ''Alice'')],
                    req_args = [(''page'', ''2'')]\<rparr>"
         and x = sample_ext and greeting = "''Hello''" and w = fresh]
    by simp
  from a b show ?thesis
    by (simp add: render_template_def sample_defs monad_defs)
qed


end
